theory Spec2Isabelle
  imports Complex_Main "HOL-Library.Sublist"
begin

section \<open>The chatbot backend of \<^verbatim>\<open>backend/app.py\<close>\<close>

text \<open>
  The backend keeps three process-wide globals (\<^verbatim>\<open>model\<close>, \<^verbatim>\<open>knowledge_base\<close>,
  \<^verbatim>\<open>knowledge_embeddings\<close>) and one file (\<^verbatim>\<open>data/chat_history.json\<close>). They are the
  fields of the record \<open>state\<close>; every operation of the source that assigns to one of
  them returns the new state.

  Python exceptions are values of the type \<open>error\<close>. A Python string is the list of
  its code points. A floating-point number is a real number or one of the three special
  values; rounding and overflow are outside the model, so a special value can only come
  from a division by zero.
\<close>

subsection \<open>Data\<close>

datatype error =
  AttributeError | TypeError | ValueError | IndexError | KeyError | OSError | UnicodeEncodeError

type_synonym pystr = "nat list"

text \<open>A string literal of the source.\<close>

definition str :: "string \<Rightarrow> pystr" where
  "str s = map of_char s"

datatype fl = Fin real | PInf | NInf | NaN

text \<open>A parsed JSON document, as \<^verbatim>\<open>json.load\<close> and \<^verbatim>\<open>request.get_json\<close> return it:
  \<open>JNull\<close> is \<^verbatim>\<open>None\<close>, an object is a dict, given by its items (distinct keys).\<close>

datatype json =
    JNull
  | JBool bool
  | JNum fl
  | JStr pystr
  | JArr "json list"
  | JObj "(pystr \<times> json) list"

record entry =
  question :: pystr
  answer :: pystr

type_synonym vec = "real list"

text \<open>The loaded sentence transformer is opaque: all that is known of it is that it maps
  a text to a vector of numbers. \<^verbatim>\<open>model.encode(texts)\<close> encodes a list of texts, one row
  per text.\<close>

type_synonym embedder = "pystr \<Rightarrow> vec"

definition encode :: "embedder \<Rightarrow> pystr list \<Rightarrow> vec list" where
  "encode m texts = map m texts"

text \<open>The file \<^verbatim>\<open>data/chat_history.json\<close>: it does not exist, or it holds a JSON document,
  or it holds text that is not a JSON document. Failures of the operating system on the
  file operations are outside the model.\<close>

datatype disk_file = Absent | Holds json | Garbled

record state =
  model :: "embedder option"
  knowledge_base :: "entry list option"
  knowledge_embeddings :: "vec list option"
  history_file :: disk_file

subsection \<open>Floating-point operations\<close>

text \<open>Division of two numbers, as numpy divides arrays: a division by zero raises
  nothing, it gives not-a-number for \<^verbatim>\<open>0/0\<close> and an infinity otherwise (zero is taken
  as positive). Product, sum and comparisons follow IEEE 754 on the special values: every
  comparison with not-a-number is false.\<close>

definition np_divide :: "real \<Rightarrow> real \<Rightarrow> fl" where
  "np_divide a b =
     (if b \<noteq> 0 then Fin (a / b)
      else if a = 0 then NaN
      else if 0 < a then PInf
      else NInf)"

fun fl_mul :: "fl \<Rightarrow> fl \<Rightarrow> fl" where
  "fl_mul (Fin a) (Fin b) = Fin (a * b)"
| "fl_mul NaN y = NaN"
| "fl_mul x NaN = NaN"
| "fl_mul PInf (Fin b) = (if b = 0 then NaN else if 0 < b then PInf else NInf)"
| "fl_mul NInf (Fin b) = (if b = 0 then NaN else if 0 < b then NInf else PInf)"
| "fl_mul (Fin a) PInf = (if a = 0 then NaN else if 0 < a then PInf else NInf)"
| "fl_mul (Fin a) NInf = (if a = 0 then NaN else if 0 < a then NInf else PInf)"
| "fl_mul PInf PInf = PInf"
| "fl_mul PInf NInf = NInf"
| "fl_mul NInf PInf = NInf"
| "fl_mul NInf NInf = PInf"

fun fl_add :: "fl \<Rightarrow> fl \<Rightarrow> fl" where
  "fl_add (Fin a) (Fin b) = Fin (a + b)"
| "fl_add NaN y = NaN"
| "fl_add x NaN = NaN"
| "fl_add PInf NInf = NaN"
| "fl_add NInf PInf = NaN"
| "fl_add PInf y = PInf"
| "fl_add x PInf = PInf"
| "fl_add NInf y = NInf"
| "fl_add x NInf = NInf"

fun fl_le :: "fl \<Rightarrow> fl \<Rightarrow> bool" where
  "fl_le NaN y = False"
| "fl_le x NaN = False"
| "fl_le (Fin a) (Fin b) = (a \<le> b)"
| "fl_le NInf y = True"
| "fl_le x PInf = True"
| "fl_le PInf y = False"
| "fl_le x NInf = False"

fun fl_less :: "fl \<Rightarrow> fl \<Rightarrow> bool" where
  "fl_less NaN y = False"
| "fl_less x NaN = False"
| "fl_less (Fin a) (Fin b) = (a < b)"
| "fl_less PInf y = False"
| "fl_less x NInf = False"
| "fl_less NInf y = True"
| "fl_less x PInf = True"

subsection \<open>The library functions the source calls\<close>

text \<open>
  \<^verbatim>\<open>sklearn.metrics.pairwise.cosine_similarity(X, Y)\<close> validates both arrays
  (\<^verbatim>\<open>check_pairwise_arrays\<close>: two-dimensional, at least one row and one column, the same
  number of columns; \<^verbatim>\<open>Y = None\<close> stands for \<^verbatim>\<open>X\<close>), divides every row by its Euclidean
  norm, a norm of zero being replaced by one (\<^verbatim>\<open>normalize\<close>, \<^verbatim>\<open>_handle_zeros_in_scale\<close>),
  and returns the matrix of the dot products of the rows of \<^verbatim>\<open>X\<close> with the rows of \<^verbatim>\<open>Y\<close>.
  The norms that are replaced are the zero norms; recent versions of the library also
  replace a norm below ten machine epsilons, which rounding puts outside the model.
  A ragged list of rows is no array; it is rejected like an array of the wrong shape.
\<close>

definition check_array :: "vec list \<Rightarrow> error + vec list" where
  "check_array A =
     (if A = [] then Inl ValueError
      else if list_ex (\<lambda>r. length r \<noteq> length (hd A)) A then Inl ValueError
      else if length (hd A) = 0 then Inl ValueError
      else Inr A)"

definition check_pairwise_arrays :: "vec list \<Rightarrow> vec list option \<Rightarrow> error + (vec list \<times> vec list)" where
  "check_pairwise_arrays X Y =
     (case Y of
        None \<Rightarrow> (case check_array X of Inl e \<Rightarrow> Inl e | Inr X' \<Rightarrow> Inr (X', X'))
      | Some Y0 \<Rightarrow>
          (case check_array X of
             Inl e \<Rightarrow> Inl e
           | Inr X' \<Rightarrow>
               (case check_array Y0 of
                  Inl e \<Rightarrow> Inl e
                | Inr Y' \<Rightarrow>
                    if length (hd X') \<noteq> length (hd Y') then Inl ValueError
                    else Inr (X', Y'))))"

definition row_norm :: "vec \<Rightarrow> real" where
  "row_norm x = sqrt (\<Sum>a\<leftarrow>x. a * a)"

definition handle_zeros_in_scale :: "real \<Rightarrow> real" where
  "handle_zeros_in_scale s = (if s = 0 then 1 else s)"

definition normalize_row :: "vec \<Rightarrow> fl list" where
  "normalize_row x = map (\<lambda>a. np_divide a (handle_zeros_in_scale (row_norm x))) x"

definition normalize_l2 :: "vec list \<Rightarrow> fl list list" where
  "normalize_l2 X = map normalize_row X"

definition dot :: "fl list \<Rightarrow> fl list \<Rightarrow> fl" where
  "dot x y = foldl (\<lambda>s (a, b). fl_add s (fl_mul a b)) (Fin 0) (zip x y)"

definition cosine_similarity :: "vec list \<Rightarrow> vec list option \<Rightarrow> error + fl list list" where
  "cosine_similarity X Y =
     (case check_pairwise_arrays X Y of
        Inl e \<Rightarrow> Inl e
      | Inr (X', Y') \<Rightarrow>
          (let X_normalized = normalize_l2 X';
               Y_normalized = normalize_l2 Y'
           in Inr (map (\<lambda>x. map (\<lambda>y. dot x y) Y_normalized) X_normalized)))"

text \<open>
  \<^verbatim>\<open>numpy.argmax\<close> on a one-dimensional array of floats: it raises \<^verbatim>\<open>ValueError\<close> on an
  empty array. Otherwise it starts at index 0 and scans from index 1, moving to an index
  when the value there is not less than or equal to the best value so far; it stops at
  the first not-a-number.
\<close>

fun argmax_scan :: "fl list \<Rightarrow> nat \<Rightarrow> nat \<Rightarrow> fl \<Rightarrow> nat" where
  "argmax_scan [] i max_ind mp = max_ind"
| "argmax_scan (x # xs) i max_ind mp =
     (if \<not> fl_le x mp then (if x = NaN then i else argmax_scan xs (Suc i) i x)
      else argmax_scan xs (Suc i) max_ind mp)"

definition argmax :: "fl list \<Rightarrow> error + nat" where
  "argmax a =
     (case a of
        [] \<Rightarrow> Inl ValueError
      | x # xs \<Rightarrow> if x = NaN then Inr 0 else Inr (argmax_scan xs 1 0 x))"

text \<open>Indexing a Python list or the first axis of an array with a non-negative index.\<close>

definition getitem :: "'a list \<Rightarrow> nat \<Rightarrow> error + 'a" where
  "getitem xs i = (if i < length xs then Inr (xs ! i) else Inl IndexError)"

subsection \<open>\<^verbatim>\<open>find_best_answer\<close>\<close>

definition fallback_answer :: pystr where
  "fallback_answer = str ''I'm sorry, I don't have information about that specific topic. Could you try rephrasing your question or ask about productivity, remote work, task prioritization, startup funding, or professional development?''"

definition find_best_answer :: "state \<Rightarrow> pystr \<Rightarrow> error + (pystr \<times> fl)" where
  "find_best_answer st user_question =
     (case model st of
        None \<Rightarrow> Inl AttributeError
      | Some m \<Rightarrow>
          (let user_embedding = encode m [user_question] in
           case cosine_similarity user_embedding (knowledge_embeddings st) of
             Inl e \<Rightarrow> Inl e
           | Inr K \<Rightarrow>
               (case getitem K 0 of
                  Inl e \<Rightarrow> Inl e
                | Inr similarities \<Rightarrow>
                    (case argmax similarities of
                       Inl e \<Rightarrow> Inl e
                     | Inr best_match_idx \<Rightarrow>
                         (case getitem similarities best_match_idx of
                            Inl e \<Rightarrow> Inl e
                          | Inr confidence \<Rightarrow>
                              if fl_less (Fin (3 / 10)) confidence then
                                (case knowledge_base st of
                                   None \<Rightarrow> Inl TypeError
                                 | Some kb \<Rightarrow>
                                     (case getitem kb best_match_idx of
                                        Inl e \<Rightarrow> Inl e
                                      | Inr item \<Rightarrow> Inr (answer item, confidence)))
                              else Inr (fallback_answer, Fin 0))))))"

subsection \<open>Start-up: \<^verbatim>\<open>load_model\<close>, \<^verbatim>\<open>load_knowledge_base\<close>\<close>

text \<open>\<^verbatim>\<open>SentenceTransformer('all-MiniLM-L6-v2')\<close> either raises or returns the model;
  \<open>loaded\<close> is that outcome.\<close>

definition load_model :: "error + embedder \<Rightarrow> state \<Rightarrow> (error + unit) \<times> state" where
  "load_model loaded st =
     (case loaded of
        Inl e \<Rightarrow> (Inl e, st)
      | Inr m \<Rightarrow> (Inr (), st\<lparr>model := Some m\<rparr>))"

definition knowledge_base_literal :: "entry list" where
  "knowledge_base_literal =
    [
     \<lparr>question = str ''How do I prioritize tasks effectively?'',
      answer = str ''Use the Eisenhower Matrix: categorize tasks by urgency and importance. Focus on important-urgent tasks first, schedule important-not urgent tasks, delegate urgent-not important tasks, and eliminate neither urgent nor important tasks.''\<rparr>,
     \<lparr>question = str ''What are the best practices for remote work productivity?'',
      answer = str ''Set up a dedicated workspace, maintain regular hours, take frequent breaks, communicate clearly with your team, use productivity tools like task managers, and establish boundaries between work and personal life.''\<rparr>,
     \<lparr>question = str ''How do I manage time better during busy periods?'',
      answer = str ''Use time-blocking to schedule focused work sessions, batch similar tasks together, minimize multitasking, set realistic deadlines, and regularly review and adjust your schedule based on what works best.''\<rparr>,
     \<lparr>question = str ''What should I consider when seeking startup funding?'',
      answer = str ''Prepare a solid business plan, know your market and competition, have clear financial projections, build a strong team, create a minimum viable product, and research different funding options like angel investors, VCs, or crowdfunding.''\<rparr>,
     \<lparr>question = str ''How do I handle work-life balance?'',
      answer = str ''Set clear boundaries between work and personal time, learn to say no to non-essential commitments, prioritize self-care and health, communicate your limits to colleagues, and regularly assess and adjust your workload.''\<rparr>,
     \<lparr>question = str ''What are effective communication strategies in the workplace?'',
      answer = str ''Practice active listening, be clear and concise in your messaging, choose the right communication channel for each situation, provide regular updates on projects, and ask clarifying questions when needed.''\<rparr>,
     \<lparr>question = str ''How do I stay motivated during challenging projects?'',
      answer = str ''Break large projects into smaller milestones, celebrate small wins, maintain a growth mindset, seek feedback and support from colleagues, and remind yourself of the project's purpose and impact.''\<rparr>,
     \<lparr>question = str ''What skills should I develop for career advancement?'',
      answer = str ''Focus on both technical skills relevant to your field and soft skills like leadership, communication, problem-solving, and adaptability. Stay updated with industry trends and consider pursuing relevant certifications.''\<rparr>,
     \<lparr>question = str ''How do I build a professional network effectively?'',
      answer = str ''Attend industry events and conferences, engage on professional social media platforms, offer help and value to others, maintain existing relationships, and follow up consistently with new connections.''\<rparr>,
     \<lparr>question = str ''What are the key elements of a successful presentation?'',
      answer = str ''Know your audience and tailor your content accordingly, have a clear structure with opening, body, and conclusion, use visual aids effectively, practice your delivery, engage with your audience, and prepare for questions.''\<rparr>
    ]"

definition load_knowledge_base :: "state \<Rightarrow> (error + unit) \<times> state" where
  "load_knowledge_base st =
     (let st1 = st\<lparr>knowledge_base := Some knowledge_base_literal\<rparr>;
          questions = map question knowledge_base_literal
      in case model st1 of
           None \<Rightarrow> (Inl AttributeError, st1)
         | Some m \<Rightarrow> (Inr (), st1\<lparr>knowledge_embeddings := Some (encode m questions)\<rparr>))"

text \<open>The start-up block of the script: both loaders, in this order, before the server
  takes its first request.\<close>

definition startup :: "error + embedder \<Rightarrow> state \<Rightarrow> (error + unit) \<times> state" where
  "startup loaded st =
     (case load_model loaded st of
        (Inl e, st1) \<Rightarrow> (Inl e, st1)
      | (Inr u, st1) \<Rightarrow> load_knowledge_base st1)"

definition initial_state :: "disk_file \<Rightarrow> state" where
  "initial_state f =
     \<lparr>model = None, knowledge_base = None, knowledge_embeddings = None, history_file = f\<rparr>"

subsection \<open>\<^verbatim>\<open>save_chat_history\<close>\<close>

text \<open>The Python slice \<^verbatim>\<open>xs[-n:]\<close> for a positive \<^verbatim>\<open>n\<close>: the start index \<^verbatim>\<open>len(xs) - n\<close>
  is clipped at zero.\<close>

definition slice_last :: "nat \<Rightarrow> 'a list \<Rightarrow> 'a list" where
  "slice_last n xs =
     (let start = int (length xs) - int n;
          start' = (if start < 0 then 0 else start)
      in drop (nat start') xs)"

text \<open>\<^verbatim>\<open>json.load\<close> on the open file, and \<^verbatim>\<open>history.append(new_entry)\<close>: only a list
  has the method \<^verbatim>\<open>append\<close>.\<close>

definition json_load :: "disk_file \<Rightarrow> error + json" where
  "json_load f = (case f of Holds j \<Rightarrow> Inr j | Garbled \<Rightarrow> Inl ValueError | Absent \<Rightarrow> Inl OSError)"

fun append_method :: "json \<Rightarrow> json \<Rightarrow> error + json list" where
  "append_method (JArr xs) x = Inr (xs @ [x])"
| "append_method JNull x = Inl AttributeError"
| "append_method (JBool b) x = Inl AttributeError"
| "append_method (JNum r) x = Inl AttributeError"
| "append_method (JStr s) x = Inl AttributeError"
| "append_method (JObj kvs) x = Inl AttributeError"

text \<open>
  Writing the file: \<^verbatim>\<open>open(history_file, 'w', encoding='utf-8')\<close> empties the file, then
  \<^verbatim>\<open>json.dump(history, f, indent=2, ensure_ascii=False)\<close> writes the document piece by
  piece, every string as it is. A surrogate code point has no UTF-8 encoding: on the
  first string with one the write raises \<^verbatim>\<open>UnicodeEncodeError\<close>, and the file is left
  with the beginning of the text, which is no JSON document.
\<close>

definition surrogate :: "nat \<Rightarrow> bool" where
  "surrogate c = (55296 \<le> c \<and> c \<le> 57343)"

definition encodable :: "pystr \<Rightarrow> bool" where
  "encodable s = list_all (\<lambda>c. \<not> surrogate c) s"

fun json_encodable :: "json \<Rightarrow> bool" where
  "json_encodable (JStr s) = encodable s"
| "json_encodable (JArr xs) = list_all json_encodable xs"
| "json_encodable (JObj kvs) =
     list_all (\<lambda>kv. encodable (fst kv) \<and> json_encodable (snd kv)) kvs"
| "json_encodable JNull = True"
| "json_encodable (JBool b) = True"
| "json_encodable (JNum r) = True"

definition json_dump :: "json \<Rightarrow> (error + unit) \<times> disk_file" where
  "json_dump doc =
     (if json_encodable doc then (Inr (), Holds doc) else (Inl UnicodeEncodeError, Garbled))"

text \<open>The reading of the clock, \<^verbatim>\<open>datetime.now().isoformat()\<close>, is the argument \<open>now\<close>.\<close>

definition new_entry :: "pystr \<Rightarrow> pystr \<Rightarrow> pystr \<Rightarrow> json" where
  "new_entry now question' answer' =
     JObj [(str ''timestamp'', JStr now), (str ''question'', JStr question'),
           (str ''answer'', JStr answer')]"

definition save_chat_history :: "pystr \<Rightarrow> pystr \<Rightarrow> pystr \<Rightarrow> state \<Rightarrow> (error + unit) \<times> state" where
  "save_chat_history question' answer' now st =
     (case (if history_file st \<noteq> Absent then json_load (history_file st) else Inr (JArr [])) of
        Inl e \<Rightarrow> (Inl e, st)
      | Inr history \<Rightarrow>
          (case append_method history (new_entry now question' answer') of
             Inl e \<Rightarrow> (Inl e, st)
           | Inr history1 \<Rightarrow>
               (let history2 = slice_last 50 history1
                in case json_dump (JArr history2) of
                     (r, f) \<Rightarrow> (r, st\<lparr>history_file := f\<rparr>))))"

subsection \<open>The endpoints\<close>

text \<open>Python's truth value of a parsed JSON document, the operator \<^verbatim>\<open>key in data\<close>,
  the subscript \<^verbatim>\<open>data[key]\<close> and the method call \<^verbatim>\<open>value.strip()\<close>, each on
  every kind of document, with the exception Python raises where the operation is not
  defined.\<close>

fun truthy :: "json \<Rightarrow> bool" where
  "truthy JNull = False"
| "truthy (JBool b) = b"
| "truthy (JNum r) = (r \<noteq> Fin 0)"
| "truthy (JStr s) = (s \<noteq> [])"
| "truthy (JArr xs) = (xs \<noteq> [])"
| "truthy (JObj kvs) = (kvs \<noteq> [])"

fun py_in :: "pystr \<Rightarrow> json \<Rightarrow> error + bool" where
  "py_in k (JObj kvs) = Inr (k \<in> set (map fst kvs))"
| "py_in k (JArr xs) = Inr (JStr k \<in> set xs)"
| "py_in k (JStr s) = Inr (sublist k s)"
| "py_in k JNull = Inl TypeError"
| "py_in k (JBool b) = Inl TypeError"
| "py_in k (JNum r) = Inl TypeError"

fun subscript :: "json \<Rightarrow> pystr \<Rightarrow> error + json" where
  "subscript (JObj kvs) k = (case map_of kvs k of None \<Rightarrow> Inl KeyError | Some v \<Rightarrow> Inr v)"
| "subscript (JArr xs) k = Inl TypeError"
| "subscript (JStr s) k = Inl TypeError"
| "subscript JNull k = Inl TypeError"
| "subscript (JBool b) k = Inl TypeError"
| "subscript (JNum r) k = Inl TypeError"

text \<open>The code points for which \<^verbatim>\<open>str.isspace\<close> holds; \<^verbatim>\<open>strip()\<close> removes them at both
  ends.\<close>

definition is_space :: "nat \<Rightarrow> bool" where
  "is_space c =
     ((9 \<le> c \<and> c \<le> 13) \<or> (28 \<le> c \<and> c \<le> 32) \<or> c = 133 \<or> c = 160 \<or> c = 5760
      \<or> (8192 \<le> c \<and> c \<le> 8202) \<or> c = 8232 \<or> c = 8233 \<or> c = 8239 \<or> c = 8287
      \<or> c = 12288)"

definition strip :: "pystr \<Rightarrow> pystr" where
  "strip s = rev (dropWhile is_space (rev (dropWhile is_space s)))"

fun strip_method :: "json \<Rightarrow> error + pystr" where
  "strip_method (JStr s) = Inr (strip s)"
| "strip_method JNull = Inl AttributeError"
| "strip_method (JBool b) = Inl AttributeError"
| "strip_method (JNum r) = Inl AttributeError"
| "strip_method (JArr xs) = Inl AttributeError"
| "strip_method (JObj kvs) = Inl AttributeError"

text \<open>A response is the document given to \<^verbatim>\<open>jsonify\<close> and the HTTP status.\<close>

type_synonym response = "json \<times> nat"

text \<open>The body of the \<^verbatim>\<open>try\<close> block of \<^verbatim>\<open>ask_question\<close>, with the state it leaves
  behind, also when it raises. \<open>data\<close> is what \<^verbatim>\<open>request.get_json()\<close> returned; \<open>now1\<close>
  and \<open>now2\<close> are the two readings of the clock, the first in \<^verbatim>\<open>save_chat_history\<close>,
  the second for the response.\<close>

definition ask_question_try :: "state \<Rightarrow> json \<Rightarrow> pystr \<Rightarrow> pystr \<Rightarrow> (error + response) \<times> state" where
  "ask_question_try st data now1 now2 =
     (if \<not> truthy data then
        (Inr (JObj [(str ''error'', JStr (str ''Question is required'')),
                    (str ''answer'', JStr []), (str ''confidence'', JNum (Fin 0))], 400), st)
      else
        case py_in (str ''question'') data of
          Inl e \<Rightarrow> (Inl e, st)
        | Inr present \<Rightarrow>
            if \<not> present then
              (Inr (JObj [(str ''error'', JStr (str ''Question is required'')),
                          (str ''answer'', JStr []), (str ''confidence'', JNum (Fin 0))], 400), st)
            else
              case subscript data (str ''question'') of
                Inl e \<Rightarrow> (Inl e, st)
              | Inr v \<Rightarrow>
                  (case strip_method v of
                     Inl e \<Rightarrow> (Inl e, st)
                   | Inr user_question \<Rightarrow>
                       if user_question = [] then
                         (Inr (JObj [(str ''error'', JStr (str ''Question cannot be empty'')),
                                     (str ''answer'', JStr []),
                                     (str ''confidence'', JNum (Fin 0))], 400), st)
                       else
                         case find_best_answer st user_question of
                           Inl e \<Rightarrow> (Inl e, st)
                         | Inr (answer', confidence) \<Rightarrow>
                             (case save_chat_history user_question answer' now1 st of
                                (Inl e, st') \<Rightarrow> (Inl e, st')
                              | (Inr u, st') \<Rightarrow>
                                  (Inr (JObj [(str ''question'', JStr user_question),
                                              (str ''answer'', JStr answer'),
                                              (str ''confidence'', JNum confidence),
                                              (str ''timestamp'', JStr now2)], 200), st'))))"

text \<open>\<^verbatim>\<open>ask_question\<close>: any exception of the body is caught and answered with status 500.\<close>

definition ask_question :: "state \<Rightarrow> json \<Rightarrow> pystr \<Rightarrow> pystr \<Rightarrow> response \<times> state" where
  "ask_question st data now1 now2 =
     (case ask_question_try st data now1 now2 of
        (Inr r, st') \<Rightarrow> (r, st')
      | (Inl e, st') \<Rightarrow>
          ((JObj [(str ''error'', JStr (str ''Internal server error'')),
                  (str ''answer'', JStr (str ''Sorry, there was an error processing your question. Please try again.'')),
                  (str ''confidence'', JNum (Fin 0))], 500), st'))"

text \<open>\<^verbatim>\<open>len(history)\<close> and \<^verbatim>\<open>history[-10:]\<close> on whatever document the file holds. A
  dict cannot be sliced (\<^verbatim>\<open>TypeError\<close>, \<^verbatim>\<open>KeyError\<close> from Python 3.12 on; the caller
  catches both alike).\<close>

fun len :: "json \<Rightarrow> error + nat" where
  "len (JArr xs) = Inr (length xs)"
| "len (JStr s) = Inr (length s)"
| "len (JObj kvs) = Inr (length kvs)"
| "len JNull = Inl TypeError"
| "len (JBool b) = Inl TypeError"
| "len (JNum r) = Inl TypeError"

fun getslice_last :: "nat \<Rightarrow> json \<Rightarrow> error + json" where
  "getslice_last n (JArr xs) = Inr (JArr (slice_last n xs))"
| "getslice_last n (JStr s) = Inr (JStr (slice_last n s))"
| "getslice_last n (JObj kvs) = Inl TypeError"
| "getslice_last n JNull = Inl TypeError"
| "getslice_last n (JBool b) = Inl TypeError"
| "getslice_last n (JNum r) = Inl TypeError"

definition get_chat_history_try :: "state \<Rightarrow> error + response" where
  "get_chat_history_try st =
     (if history_file st \<noteq> Absent then
        (case json_load (history_file st) of
           Inl e \<Rightarrow> Inl e
         | Inr history \<Rightarrow>
             (case len history of
                Inl e \<Rightarrow> Inl e
              | Inr n \<Rightarrow>
                  (case (if n > 10 then getslice_last 10 history else Inr history) of
                     Inl e \<Rightarrow> Inl e
                   | Inr recent_history \<Rightarrow>
                       Inr (JObj [(str ''history'', recent_history)], 200))))
      else Inr (JObj [(str ''history'', JArr [])], 200))"

definition get_chat_history :: "state \<Rightarrow> response" where
  "get_chat_history st =
     (case get_chat_history_try st of
        Inr r \<Rightarrow> r
      | Inl e \<Rightarrow>
          (JObj [(str ''error'', JStr (str ''Error retrieving chat history'')),
                 (str ''history'', JArr [])], 200))"

definition health_check :: "state \<Rightarrow> response" where
  "health_check st =
     (JObj [(str ''status'', JStr (str ''healthy'')),
            (str ''model_loaded'', JBool (case model st of None \<Rightarrow> False | Some m \<Rightarrow> True)),
            (str ''knowledge_base_loaded'',
               JBool (case knowledge_base st of None \<Rightarrow> False | Some kb \<Rightarrow> True))], 200)"

text \<open>The three routes of the application, and a run of the server over a sequence of
  requests.\<close>

datatype request = Ask json pystr pystr | History | Health

fun route :: "state \<Rightarrow> request \<Rightarrow> response \<times> state" where
  "route st (Ask data now1 now2) = ask_question st data now1 now2"
| "route st History = (get_chat_history st, st)"
| "route st Health = (health_check st, st)"

fun serve :: "state \<Rightarrow> request list \<Rightarrow> state" where
  "serve st [] = st"
| "serve st (r # rs) = serve (snd (route st r)) rs"

subsection \<open>Notions for the statements\<close>

text \<open>The numbers behind the floating-point values of \<^verbatim>\<open>cosine_similarity\<close>: a row
  divided by its norm, with the zero norm replaced, and the sum of the products of two
  rows.\<close>

definition unit_row :: "vec \<Rightarrow> vec" where
  "unit_row x = map (\<lambda>a. a / handle_zeros_in_scale (row_norm x)) x"

definition rdot :: "vec \<Rightarrow> vec \<Rightarrow> real" where
  "rdot x y = (\<Sum>(a, b)\<leftarrow>zip x y. a * b)"

subsection \<open>Embedders for concrete runs\<close>

text \<open>The sentence transformer is a parameter of every statement below. Two simple
  embedders stand in for it where a statement is evaluated on a concrete input: one that
  maps every text to the same vector, and one that tells a single text from all others.\<close>

definition const_embedder :: "vec \<Rightarrow> embedder" where
  "const_embedder v s = v"

definition keyed_embedder :: "pystr \<Rightarrow> embedder" where
  "keyed_embedder k s = (if s = k then [1, 0] else [0, 1])"

section \<open>Properties\<close>

subsection \<open>The slice and the scan\<close>

lemma slice_last_drop: "slice_last n xs = drop (length xs - n) xs"
  by (simp add: slice_last_def Let_def nat_diff_distrib')

lemma argmax_scan_spec:
  "length pre = i \<Longrightarrow> best < i \<Longrightarrow> pre ! best = mp \<Longrightarrow> \<forall>j<i. pre ! j \<le> mp \<Longrightarrow>
   \<forall>j<best. pre ! j < mp \<Longrightarrow>
   argmax_scan (map Fin xs) i best (Fin mp) < length (pre @ xs) \<and>
   (\<forall>j<length (pre @ xs). (pre @ xs) ! j \<le> (pre @ xs) ! argmax_scan (map Fin xs) i best (Fin mp)) \<and>
   (\<forall>j<argmax_scan (map Fin xs) i best (Fin mp).
       (pre @ xs) ! j < (pre @ xs) ! argmax_scan (map Fin xs) i best (Fin mp))"
proof (induction xs arbitrary: pre i best mp)
  case Nil
  then show ?case by simp
next
  case (Cons x xs)
  show ?case
  proof (cases "x \<le> mp")
    case True
    let ?r = "argmax_scan (map Fin xs) (Suc i) best (Fin mp)"
    have "?r < length ((pre @ [x]) @ xs) \<and>
      (\<forall>j<length ((pre @ [x]) @ xs). ((pre @ [x]) @ xs) ! j \<le> ((pre @ [x]) @ xs) ! ?r) \<and>
      (\<forall>j<?r. ((pre @ [x]) @ xs) ! j < ((pre @ [x]) @ xs) ! ?r)"
      using Cons.prems True
      by (intro Cons.IH) (auto simp: nth_append less_Suc_eq)
    with True show ?thesis by simp
  next
    case False
    let ?r = "argmax_scan (map Fin xs) (Suc i) i (Fin x)"
    have "?r < length ((pre @ [x]) @ xs) \<and>
      (\<forall>j<length ((pre @ [x]) @ xs). ((pre @ [x]) @ xs) ! j \<le> ((pre @ [x]) @ xs) ! ?r) \<and>
      (\<forall>j<?r. ((pre @ [x]) @ xs) ! j < ((pre @ [x]) @ xs) ! ?r)"
      using Cons.prems False
      by (intro Cons.IH) (auto simp: nth_append less_Suc_eq intro: order.trans less_le_trans)
    with False show ?thesis by simp
  qed
qed

lemma argmax_first_max:
  assumes "rs \<noteq> []"
  shows "\<exists>r. argmax (map Fin rs) = Inr r \<and> r < length rs
            \<and> (\<forall>j<length rs. rs ! j \<le> rs ! r) \<and> (\<forall>j<r. rs ! j < rs ! r)"
proof -
  from assms obtain x xs where a: "rs = x # xs" by (cases rs) auto
  let ?r = "argmax_scan (map Fin xs) 1 0 (Fin x)"
  have "?r < length ([x] @ xs) \<and>
   (\<forall>j<length ([x] @ xs). ([x] @ xs) ! j \<le> ([x] @ xs) ! ?r) \<and>
   (\<forall>j<?r. ([x] @ xs) ! j < ([x] @ xs) ! ?r)"
    by (rule argmax_scan_spec) auto
  then show ?thesis by (simp add: a argmax_def)
qed

lemma argmax_Fin_bound: "argmax (map Fin rs) = Inr i \<Longrightarrow> i < length rs"
  using argmax_first_max[of rs] by (cases rs) (auto simp: argmax_def)

lemma argmax_scan_no_greater:
  "\<forall>x\<in>set xs. x \<le> mp \<Longrightarrow> argmax_scan (map Fin xs) i max_ind (Fin mp) = max_ind"
  by (induction xs arbitrary: i) auto


lemma argmax_replicate: "0 < n \<Longrightarrow> argmax (map Fin (replicate n c)) = Inr 0"
  by (cases n) (simp_all add: argmax_def argmax_scan_no_greater del: map_replicate)

subsection \<open>Cosine similarity\<close>

lemma handle_zeros_nonzero: "handle_zeros_in_scale (row_norm x) \<noteq> 0"
  by (simp add: handle_zeros_in_scale_def)

lemma normalize_row_unit: "normalize_row x = map Fin (unit_row x)"
  by (simp add: normalize_row_def unit_row_def np_divide_def handle_zeros_nonzero)

lemma foldl_dot_Fin:
  "foldl (\<lambda>s (a, b). fl_add s (fl_mul a b)) (Fin s0) (zip (map Fin u) (map Fin v))
     = Fin (s0 + (\<Sum>(a, b)\<leftarrow>zip u v. a * b))"
proof (induction u arbitrary: v s0)
  case Nil
  then show ?case by simp
next
  case (Cons a u)
  then show ?case by (cases v) (simp_all add: add.assoc)
qed

lemma dot_Fin: "dot (map Fin u) (map Fin v) = Fin (rdot u v)"
  using foldl_dot_Fin[of 0 u v] by (simp add: dot_def rdot_def)

lemma cos_value:
  "dot (normalize_row x) (normalize_row y) = Fin (rdot (unit_row x) (unit_row y))"
  by (simp add: normalize_row_unit dot_Fin)

lemma check_array_ok:
  "A \<noteq> [] \<Longrightarrow> \<forall>r\<in>set A. length r = D \<Longrightarrow> 0 < D \<Longrightarrow> check_array A = Inr A"
  by (cases A) (auto simp: check_array_def list_ex_iff)

lemma cosine_similarity_row:
  assumes "x \<noteq> []" "Y \<noteq> []" "\<forall>y\<in>set Y. length y = length x"
  shows "cosine_similarity [x] (Some Y) =
           Inr [map (\<lambda>y. dot (normalize_row x) (normalize_row y)) Y]"
proof -
  have X: "check_array [x] = Inr [x]"
    using assms(1) by (intro check_array_ok[where D = "length x"]) auto
  have Y: "check_array Y = Inr Y"
    using assms by (intro check_array_ok[where D = "length x"]) auto
  have "length (hd Y) = length x"
    using assms by (cases Y) auto
  then show ?thesis
    by (simp add: cosine_similarity_def check_pairwise_arrays_def X Y normalize_l2_def Let_def
        comp_def)
qed

lemma cosine_similarity_finite:
  assumes "cosine_similarity X Y = Inr K"
  shows "\<exists>R. K = map (map Fin) R"
proof -
  from assms obtain X' Y' where
    K: "K = map (\<lambda>x. map (\<lambda>y. dot x y) (normalize_l2 Y')) (normalize_l2 X')"
    by (auto simp: cosine_similarity_def Let_def split: sum.splits prod.splits)
  have "K = map (map Fin) (map (\<lambda>x. map (\<lambda>y. rdot (unit_row x) (unit_row y)) Y') X')"
    by (simp add: K normalize_l2_def comp_def cos_value)
  then show ?thesis by blast
qed

lemma cosine_similarity_empty: "cosine_similarity X (Some []) = Inl ValueError"
  by (simp add: cosine_similarity_def check_pairwise_arrays_def check_array_def split: sum.splits)

lemma sumsq_nonneg: "0 \<le> (\<Sum>a\<leftarrow>x. a * a :: real)"
  by (induction x) auto

lemma sumsq_zero_iff: "(\<Sum>a\<leftarrow>x. a * a :: real) = 0 \<longleftrightarrow> (\<forall>a\<in>set x. a = 0)"
proof (induction x)
  case Nil
  then show ?case by simp
next
  case (Cons a x)
  have "a * a + (\<Sum>a\<leftarrow>x. a * a) = 0 \<longleftrightarrow> a * a = 0 \<and> (\<Sum>a\<leftarrow>x. a * a) = 0"
    using sumsq_nonneg[of x] by (intro add_nonneg_eq_0_iff) auto
  with Cons show ?case by simp
qed

lemma row_norm_zero_iff: "row_norm x = 0 \<longleftrightarrow> (\<forall>a\<in>set x. a = 0)"
  by (simp add: row_norm_def sumsq_zero_iff)

lemma unguarded_division:
  "row_norm x = 0 \<Longrightarrow> map (\<lambda>a. np_divide a (row_norm x)) x = map (\<lambda>a. NaN) x"
  using row_norm_zero_iff[of x] by (simp add: np_divide_def)

lemma foldl_dot_NaN: "foldl (\<lambda>s (a, b). fl_add s (fl_mul a b)) NaN zs = NaN"
  by (induction zs) auto

lemma dot_NaN_row: "x \<noteq> [] \<Longrightarrow> y \<noteq> [] \<Longrightarrow> dot (map (\<lambda>a. NaN) x) y = NaN"
  by (cases x; cases y) (simp_all add: dot_def foldl_dot_NaN)

lemma unguarded_similarity:
  assumes "row_norm x = 0" and "x \<noteq> []" and "y \<noteq> []"
  shows "dot (map (\<lambda>a. np_divide a (row_norm x)) x) (normalize_row y) = NaN"
proof -
  have ne: "normalize_row y \<noteq> []" using assms(3) by (simp add: normalize_row_def)
  have eq: "map (\<lambda>a. np_divide a (row_norm x)) x = map (\<lambda>a. NaN) x"
    using assms(1) by (rule unguarded_division)
  show ?thesis unfolding eq by (rule dot_NaN_row[OF assms(2) ne])
qed

lemma unit_row_zero: "row_norm x = 0 \<Longrightarrow> unit_row x = x"
  by (simp add: unit_row_def handle_zeros_in_scale_def)

lemma rdot_zero_left: "\<forall>a\<in>set x. a = 0 \<Longrightarrow> rdot x y = 0"
  unfolding rdot_def by (induction x arbitrary: y) (auto simp: zip_Cons1 split: list.splits)

lemma rdot_zero_right: "\<forall>a\<in>set y. a = 0 \<Longrightarrow> rdot x y = 0"
  unfolding rdot_def by (induction x arbitrary: y) (auto simp: zip_Cons1 split: list.splits)

lemma cos_zero:
  "row_norm x = 0 \<or> row_norm y = 0 \<Longrightarrow> rdot (unit_row x) (unit_row y) = 0"
  by (auto simp: unit_row_zero row_norm_zero_iff intro: rdot_zero_left rdot_zero_right)

lemma sumsq_divide: "(\<Sum>a\<leftarrow>x. a * a / c) = (\<Sum>a\<leftarrow>x. a * a) / (c :: real)"
  by (induction x) (auto simp: add_divide_distrib)

lemma sumsq_unit_row:
  assumes "row_norm x \<noteq> 0"
  shows "(\<Sum>a\<leftarrow>unit_row x. a * a) = 1"
proof -
  let ?n = "row_norm x"
  have n2: "?n * ?n = (\<Sum>a\<leftarrow>x. a * a)"
    by (simp add: row_norm_def sumsq_nonneg)
  have "(\<Sum>a\<leftarrow>unit_row x. a * a) = (\<Sum>a\<leftarrow>x. (a * a) / (?n * ?n))"
    using assms by (simp add: unit_row_def handle_zeros_in_scale_def comp_def)
  also have "\<dots> = (\<Sum>a\<leftarrow>x. a * a) / (?n * ?n)"
    by (rule sumsq_divide)
  also have "\<dots> = 1"
    using assms by (simp add: n2 [symmetric])
  finally show ?thesis .
qed

lemma rdot_self: "rdot u u = (\<Sum>a\<leftarrow>u. a * a)"
  unfolding rdot_def by (induction u) auto

lemma two_rdot_le:
  "length u = length v \<Longrightarrow> 2 * rdot u v \<le> (\<Sum>a\<leftarrow>u. a * a) + (\<Sum>b\<leftarrow>v. b * b)"
proof (induction u v rule: list_induct2)
  case Nil
  then show ?case by (simp add: rdot_def)
next
  case (Cons a u b v)
  have "2 * (a * b) \<le> a * a + b * b"
    using sum_squares_bound[of a b] by (simp add: power2_eq_square)
  with Cons.IH show ?case
    by (simp add: rdot_def algebra_simps)
qed

lemma sumsq_unit_row_le: "(\<Sum>a\<leftarrow>unit_row x. a * a) \<le> 1"
proof (cases "row_norm x = 0")
  case True
  then show ?thesis
    using sumsq_zero_iff[of x] by (simp add: unit_row_zero row_norm_zero_iff)
next
  case False
  then show ?thesis by (simp add: sumsq_unit_row)
qed

lemma cos_le_one:
  assumes "length x = length y"
  shows "rdot (unit_row x) (unit_row y) \<le> 1"
proof -
  have "length (unit_row x) = length (unit_row y)"
    using assms by (simp add: unit_row_def)
  from two_rdot_le[OF this] sumsq_unit_row_le[of x] sumsq_unit_row_le[of y]
  show ?thesis by linarith
qed

lemma cos_self: "row_norm x \<noteq> 0 \<Longrightarrow> rdot (unit_row x) (unit_row x) = 1"
  by (simp add: rdot_self sumsq_unit_row)

subsection \<open>String literals\<close>

lemma str_eq_iff: "str a = str b \<longleftrightarrow> a = b"
  by (simp add: str_def inj_map_eq_map[OF inj_of_char])

lemma encodable_str: "encodable (str s)"
proof -
  have "\<not> surrogate (of_char c)" for c :: char
  proof -
    have "of_char c < (256 :: nat)" by simp
    then show ?thesis unfolding surrogate_def by linarith
  qed
  then show ?thesis by (simp add: encodable_def str_def list_all_iff)
qed

subsection \<open>Evaluating \<^verbatim>\<open>find_best_answer\<close>; the state after start-up\<close>

lemma find_best_answer_eval:
  assumes "model st = Some m" and "knowledge_embeddings st = Some Y"
    and "Y \<noteq> []" and "m q \<noteq> []" and "\<forall>y\<in>set Y. length y = length (m q)"
    and "argmax (map (\<lambda>y. dot (normalize_row (m q)) (normalize_row y)) Y) = Inr i"
  shows "i < length Y"
    and "find_best_answer st q =
      (if 3 / 10 < rdot (unit_row (m q)) (unit_row (Y ! i)) then
         (case knowledge_base st of
            None \<Rightarrow> Inl TypeError
          | Some kb \<Rightarrow>
              (case getitem kb i of
                 Inl e \<Rightarrow> Inl e
               | Inr item \<Rightarrow> Inr (answer item, Fin (rdot (unit_row (m q)) (unit_row (Y ! i))))))
       else Inr (fallback_answer, Fin 0))"
proof -
  let ?sims = "map (\<lambda>y. dot (normalize_row (m q)) (normalize_row y)) Y"
  let ?rs = "map (\<lambda>y. rdot (unit_row (m q)) (unit_row y)) Y"
  have sr: "?sims = map Fin ?rs" by (simp add: cos_value)
  have cs: "cosine_similarity (encode m [q]) (knowledge_embeddings st) = Inr [?sims]"
    using assms by (simp add: encode_def cosine_similarity_row)
  from assms(6) have "argmax (map Fin ?rs) = Inr i" by (simp only: sr)
  from argmax_Fin_bound[OF this] show i: "i < length Y" by simp
  then have gi: "getitem ?sims i = Inr (Fin (rdot (unit_row (m q)) (unit_row (Y ! i))))"
    by (simp add: getitem_def cos_value)
  show "find_best_answer st q =
      (if 3 / 10 < rdot (unit_row (m q)) (unit_row (Y ! i)) then
         (case knowledge_base st of
            None \<Rightarrow> Inl TypeError
          | Some kb \<Rightarrow>
              (case getitem kb i of
                 Inl e \<Rightarrow> Inl e
               | Inr item \<Rightarrow> Inr (answer item, Fin (rdot (unit_row (m q)) (unit_row (Y ! i))))))
       else Inr (fallback_answer, Fin 0))"
    using assms(6) gi
    by (simp add: find_best_answer_def Let_def assms(1) cs getitem_def)
qed

lemma length_knowledge_base_literal: "length knowledge_base_literal = 10"
  by (simp add: knowledge_base_literal_def)

lemma startup_state:
  "startup (Inr m) st0 = (Inr (), st) \<longleftrightarrow>
     st = st0\<lparr>model := Some m, knowledge_base := Some knowledge_base_literal,
              knowledge_embeddings := Some (map m (map question knowledge_base_literal))\<rparr>"
  by (auto simp: startup_def load_model_def load_knowledge_base_def Let_def encode_def)

lemma startup_ok:
  "startup (Inr m) st0 = (Inr (), snd (startup (Inr m) st0))"
  by (simp add: startup_def load_model_def load_knowledge_base_def Let_def)

lemma find_best_answer_started:
  assumes "startup (Inr m) st0 = (Inr (), st)" and "0 < D" and "\<forall>s. length (m s) = D"
  shows "\<exists>i c. i < length knowledge_base_literal
           \<and> argmax (map (\<lambda>y. dot (normalize_row (m q)) (normalize_row y))
                 (map m (map question knowledge_base_literal))) = Inr i
           \<and> c = rdot (unit_row (m q)) (unit_row (m (question (knowledge_base_literal ! i))))
           \<and> find_best_answer st q =
               (if 3 / 10 < c then Inr (answer (knowledge_base_literal ! i), Fin c)
                else Inr (fallback_answer, Fin 0))"
proof -
  let ?kb = knowledge_base_literal
  let ?Y = "map m (map question ?kb)"
  let ?sims = "map (\<lambda>y. dot (normalize_row (m q)) (normalize_row y)) ?Y"
  let ?rs = "map (\<lambda>y. rdot (unit_row (m q)) (unit_row y)) ?Y"
  from assms(1) have st: "model st = Some m" "knowledge_base st = Some ?kb"
    "knowledge_embeddings st = Some ?Y"
    by (simp_all add: startup_state)
  have ne: "?Y \<noteq> []" using length_knowledge_base_literal by auto
  have q: "m q \<noteq> []" using assms(2,3) by auto
  have dims: "\<forall>y\<in>set ?Y. length y = length (m q)" using assms(3) by auto
  have sr: "?sims = map Fin ?rs" by (simp add: cos_value)
  have "?rs \<noteq> []" using ne by simp
  from argmax_first_max[OF this] obtain i where "argmax (map Fin ?rs) = Inr i" by blast
  then have i: "argmax ?sims = Inr i" by (simp only: sr)
  from find_best_answer_eval[OF st(1) st(3) ne q dims i]
  have il: "i < length ?Y"
    and r: "find_best_answer st q =
      (if 3 / 10 < rdot (unit_row (m q)) (unit_row (?Y ! i)) then
         (case knowledge_base st of
            None \<Rightarrow> Inl TypeError
          | Some kb \<Rightarrow>
              (case getitem kb i of
                 Inl e \<Rightarrow> Inl e
               | Inr item \<Rightarrow> Inr (answer item, Fin (rdot (unit_row (m q)) (unit_row (?Y ! i))))))
       else Inr (fallback_answer, Fin 0))"
    by blast+
  from il have ik: "i < length ?kb" by simp
  then have Yi: "?Y ! i = m (question (?kb ! i))" by simp
  from r ik have "find_best_answer st q =
      (if 3 / 10 < rdot (unit_row (m q)) (unit_row (m (question (?kb ! i))))
       then Inr (answer (?kb ! i), Fin (rdot (unit_row (m q)) (unit_row (m (question (?kb ! i))))))
       else Inr (fallback_answer, Fin 0))"
    unfolding Yi by (simp add: st(2) getitem_def)
  with ik i show ?thesis by blast
qed

subsection \<open>What a request can change\<close>

lemma find_best_answer_frame:
  assumes "model st' = model st" and "knowledge_base st' = knowledge_base st"
    and "knowledge_embeddings st' = knowledge_embeddings st"
  shows "find_best_answer st' q = find_best_answer st q"
  unfolding find_best_answer_def assms by (rule refl)

lemma save_chat_history_frame:
  "snd (save_chat_history q a now st)
     = st\<lparr>history_file := history_file (snd (save_chat_history q a now st))\<rparr>"
  by (simp add: save_chat_history_def Let_def split: sum.splits prod.splits)

lemma ask_question_state:
  "snd (ask_question st data now1 now2) = st \<or>
   (\<exists>q a. snd (ask_question st data now1 now2) = snd (save_chat_history q a now1 st))"
  by (auto simp: ask_question_def ask_question_try_def Let_def split: sum.splits prod.splits)
     (metis snd_conv)+

lemma route_frame:
  "snd (route st r) = st\<lparr>history_file := history_file (snd (route st r))\<rparr>"
proof (cases r)
  case (Ask data now1 now2)
  from ask_question_state[of st data now1 now2] show ?thesis
  proof
    assume "snd (ask_question st data now1 now2) = st"
    with Ask show ?thesis by simp
  next
    assume "\<exists>q a. snd (ask_question st data now1 now2) = snd (save_chat_history q a now1 st)"
    then obtain q a
      where sv: "snd (ask_question st data now1 now2) = snd (save_chat_history q a now1 st)"
      by blast
    have "snd (route st r) = snd (save_chat_history q a now1 st)" using Ask sv by simp
    then show ?thesis using save_chat_history_frame[of q a now1 st] by simp
  qed
qed simp_all

lemma serve_frame: "serve st rs = st\<lparr>history_file := history_file (serve st rs)\<rparr>"
proof (induction rs arbitrary: st)
  case Nil
  show ?case by simp
next
  case (Cons r rs)
  let ?st1 = "snd (route st r)"
  have "serve st (r # rs) = serve ?st1 rs" by simp
  also have "\<dots> = ?st1\<lparr>history_file := history_file (serve ?st1 rs)\<rparr>" by (rule Cons.IH)
  also have "\<dots> = st\<lparr>history_file := history_file (serve ?st1 rs)\<rparr>"
    by (subst route_frame) simp
  finally show ?case by simp
qed

subsection \<open>Requests without a question\<close>

lemma ask_question_rejects:
  assumes "\<not> truthy data
         \<or> (\<exists>kvs. data = JObj kvs \<and>
               (map_of kvs (str ''question'') = None
                \<or> (\<exists>s. map_of kvs (str ''question'') = Some (JStr s) \<and> strip s = [])))"
  shows "\<exists>msg. ask_question st data now1 now2 =
           ((JObj [(str ''error'', JStr msg), (str ''answer'', JStr []),
                   (str ''confidence'', JNum (Fin 0))], 400), st)"
proof (cases "truthy data")
  case False
  then show ?thesis by (simp add: ask_question_def ask_question_try_def)
next
  case True
  with assms obtain kvs where d: "data = JObj kvs"
    and q: "map_of kvs (str ''question'') = None
                \<or> (\<exists>s. map_of kvs (str ''question'') = Some (JStr s) \<and> strip s = [])"
    by blast
  from q show ?thesis
  proof
    assume "map_of kvs (str ''question'') = None"
    then have "str ''question'' \<notin> fst ` set kvs" by (simp add: map_of_eq_None_iff)
    with True d show ?thesis by (simp add: ask_question_def ask_question_try_def)
  next
    assume "\<exists>s. map_of kvs (str ''question'') = Some (JStr s) \<and> strip s = []"
    then obtain s where s: "map_of kvs (str ''question'') = Some (JStr s)" "strip s = []"
      by blast
    then have "str ''question'' \<in> fst ` set kvs"
      by (metis map_of_eq_None_iff option.distinct(1))
    with True d s show ?thesis by (simp add: ask_question_def ask_question_try_def)
  qed
qed

subsection \<open>Saving a record that can be written\<close>

lemma json_encodable_new_entry:
  "json_encodable (new_entry now q a) \<longleftrightarrow> encodable now \<and> encodable q \<and> encodable a"
  by (simp add: new_entry_def encodable_str)

lemma save_chat_history_cap:
  assumes "history_file st = Absent \<and> old = [] \<or> history_file st = Holds (JArr old)"
    and "list_all json_encodable old"
    and "encodable now" and "encodable q" and "encodable a"
  shows "\<exists>log. save_chat_history q a now st = (Inr (), st\<lparr>history_file := Holds (JArr log)\<rparr>)
     \<and> length log \<le> 50
     \<and> log = rev (take 50 (rev (old @ [new_entry now q a])))
     \<and> suffix log (old @ [new_entry now q a])
     \<and> last log = new_entry now q a
     \<and> (50 \<le> length old \<longrightarrow> log = drop (length old - 49) old @ [new_entry now q a])"
proof -
  let ?all = "old @ [new_entry now q a]"
  let ?log = "drop (length ?all - 50) ?all"
  have "list_all json_encodable ?all"
    using assms(2-5) by (simp add: json_encodable_new_entry)
  then have "list_all json_encodable ?log"
    unfolding list_all_iff using set_drop_subset[of "length ?all - 50" ?all] by blast
  then have enc: "json_encodable (JArr ?log)" by simp
  have fl: "save_chat_history q a now st = (Inr (), st\<lparr>history_file := Holds (JArr ?log)\<rparr>)"
    using assms(1) enc
    by (auto simp: save_chat_history_def json_load_def json_dump_def Let_def slice_last_drop)
  have len: "length ?log \<le> 50" by simp
  have rv: "?log = rev (take 50 (rev ?all))"
    by (simp only: take_rev rev_rev_ident)
  have suf: "suffix ?log ?all" by (rule suffix_drop)
  have lst: "last ?log = new_entry now q a" by simp
  have ev: "50 \<le> length old \<longrightarrow> ?log = drop (length old - 49) old @ [new_entry now q a]"
    by simp
  from fl len rv suf lst ev show ?thesis by blast
qed

subsection \<open>Saving a record that cannot be written; saving to a file that is no JSON\<close>

lemma save_chat_history_unencodable:
  assumes "history_file st = Absent \<and> old = [] \<or> history_file st = Holds (JArr old)"
    and "\<not> (encodable now \<and> encodable q \<and> encodable a)"
  shows "save_chat_history q a now st = (Inl UnicodeEncodeError, st\<lparr>history_file := Garbled\<rparr>)"
proof -
  let ?all = "old @ [new_entry now q a]"
  have "drop (length ?all - 50) ?all = drop (length ?all - 50) old @ [new_entry now q a]"
    by simp
  then have "\<not> list_all json_encodable (drop (length ?all - 50) ?all)"
    using assms(2) by (simp add: json_encodable_new_entry)
  then have "\<not> json_encodable (JArr (slice_last 50 ?all))"
    by (simp add: slice_last_drop)
  with assms(1) show ?thesis
    by (auto simp: save_chat_history_def json_load_def json_dump_def Let_def)
qed

lemma save_chat_history_garbled:
  "history_file st = Garbled \<Longrightarrow> save_chat_history q a now st = (Inl ValueError, st)"
  by (simp add: save_chat_history_def json_load_def)

lemma sqrt_100: "sqrt 100 = 10"
  using real_sqrt_abs[of 10] by simp

section \<open>The claims\<close>

subsection \<open>C1: the threshold\<close>

text \<open>
  Claim C1. Whenever \<^verbatim>\<open>find_best_answer\<close> has computed the similarities and
  \<^verbatim>\<open>argmax\<close> has selected an index \<open>i\<close> that is valid for the knowledge base, the
  similarity at \<open>i\<close> is a number, and \<^verbatim>\<open>find_best_answer\<close> returns the answer of entry
  \<open>i\<close> together with that similarity exactly when it is strictly greater than 0.3; a
  similarity equal to 0.3, or any similarity not exceeding it, gives the fixed fallback
  string with confidence 0.
\<close>

theorem find_best_answer_threshold:
  assumes "model st = Some m" and "knowledge_base st = Some kb"
    and "cosine_similarity (encode m [q]) (knowledge_embeddings st) = Inr K"
    and "getitem K 0 = Inr similarities"
    and "argmax similarities = Inr i"
    and "i < length kb"
  shows "\<exists>c. similarities ! i = Fin c
       \<and> (3 / 10 < c \<longrightarrow> find_best_answer st q = Inr (answer (kb ! i), Fin c))
       \<and> (c \<le> 3 / 10 \<longrightarrow> find_best_answer st q = Inr (fallback_answer, Fin 0))"
proof -
  from cosine_similarity_finite[OF assms(3)] obtain R where K: "K = map (map Fin) R" by blast
  from assms(4) have "0 < length K" and "similarities = K ! 0"
    by (auto simp: getitem_def split: if_splits)
  then have s: "similarities = map Fin (R ! 0)" by (simp add: K)
  with assms(5) have il: "i < length (R ! 0)" by (simp add: argmax_Fin_bound)
  then have c: "similarities ! i = Fin (R ! 0 ! i)" by (simp add: s)
  from il have gi: "getitem similarities i = Inr (Fin (R ! 0 ! i))"
    by (simp add: getitem_def s)
  from assms gi have "(3 / 10 < R ! 0 ! i \<longrightarrow>
            find_best_answer st q = Inr (answer (kb ! i), Fin (R ! 0 ! i)))
       \<and> (R ! 0 ! i \<le> 3 / 10 \<longrightarrow> find_best_answer st q = Inr (fallback_answer, Fin 0))"
    by (simp add: find_best_answer_def Let_def getitem_def)
  with c show ?thesis by blast
qed

theorem find_best_answer_threshold_witness:
  "cosine_similarity (encode (const_embedder [1, 0, 0, 0]) [str ''q'']) (Some [[3, 9, 3, 1]])
     = Inr [[Fin (3 / 10)]]
   \<and> argmax [Fin (3 / 10)] = Inr 0
   \<and> find_best_answer \<lparr>model = Some (const_embedder [1, 0, 0, 0]),
         knowledge_base = Some [\<lparr>question = str ''k'', answer = str ''v''\<rparr>],
         knowledge_embeddings = Some [[3, 9, 3, 1]], history_file = Absent\<rparr> (str ''q'')
       = Inr (fallback_answer, Fin 0)"
proof -
  let ?kb = "[\<lparr>question = str ''k'', answer = str ''v''\<rparr>]"
  let ?st = "\<lparr>model = Some (const_embedder [1, 0, 0, 0]), knowledge_base = Some ?kb,
         knowledge_embeddings = Some [[3, 9, 3, 1]], history_file = Absent\<rparr>"
  have cs: "cosine_similarity (encode (const_embedder [1, 0, 0, 0]) [str ''q''])
      (Some [[3, 9, 3, 1]]) = Inr [[Fin (3 / 10)]]"
    by (simp add: encode_def const_embedder_def cosine_similarity_row cos_value rdot_def
        unit_row_def row_norm_def handle_zeros_in_scale_def sqrt_100)
  have am: "argmax [Fin (3 / 10)] = Inr 0" by (simp add: argmax_def)
  have "\<exists>c. [Fin (3 / 10)] ! 0 = Fin c
       \<and> (3 / 10 < c \<longrightarrow> find_best_answer ?st (str ''q'') = Inr (answer (?kb ! 0), Fin c))
       \<and> (c \<le> 3 / 10 \<longrightarrow> find_best_answer ?st (str ''q'') = Inr (fallback_answer, Fin 0))"
    by (rule find_best_answer_threshold[where K = "[[Fin (3 / 10)]]"
          and m = "const_embedder [1, 0, 0, 0]"])
       (simp_all add: cs am getitem_def)
  then have "find_best_answer ?st (str ''q'') = Inr (fallback_answer, Fin 0)"
    by auto
  with cs am show ?thesis by simp
qed

subsection \<open>C2: an entry's own question\<close>

text \<open>
  Claim C2, as stated, fails: with an embedder that maps two questions of the knowledge
  base to the same vector, the later entry's question resolves to the earlier entry's
  answer, and with an embedder that maps a question to the zero vector, that question
  resolves to the fallback.
\<close>

theorem self_match_counterexample:
  "find_best_answer (snd (startup (Inr (const_embedder [1, 0])) (initial_state Absent)))
      (question (knowledge_base_literal ! 1))
     = Inr (answer (knowledge_base_literal ! 0), Fin 1)
   \<and> answer (knowledge_base_literal ! 0) \<noteq> answer (knowledge_base_literal ! 1)
   \<and> find_best_answer (snd (startup (Inr (const_embedder [0, 0])) (initial_state Absent)))
        (question (knowledge_base_literal ! 0))
     = Inr (fallback_answer, Fin 0)"
proof -
  let ?kb = knowledge_base_literal
  have ans: "answer (?kb ! 0) \<noteq> answer (?kb ! 1)"
    by (simp add: knowledge_base_literal_def str_eq_iff)
  have D: "(0::nat) < 2" by simp
  have A: "find_best_answer (snd (startup (Inr (const_embedder [1, 0])) (initial_state Absent)))
      (question (?kb ! 1)) = Inr (answer (?kb ! 0), Fin 1)"
  proof -
    let ?m = "const_embedder [1, 0]"
    have len: "\<forall>s. length (?m s) = 2" by (simp add: const_embedder_def)
    have c: "rdot (unit_row (?m s)) (unit_row (?m t)) = 1" for s t
      by (simp add: const_embedder_def rdot_def unit_row_def row_norm_def
          handle_zeros_in_scale_def)
    have eq: "map (\<lambda>y. dot (normalize_row (?m (question (?kb ! 1)))) (normalize_row y))
                 (map ?m (map question ?kb)) = map Fin (replicate 10 1)"
      by (simp add: cos_value comp_def c length_knowledge_base_literal map_replicate_const)
    have am: "argmax (map (\<lambda>y. dot (normalize_row (?m (question (?kb ! 1)))) (normalize_row y))
                 (map ?m (map question ?kb))) = Inr 0"
      unfolding eq by (rule argmax_replicate) simp
    from find_best_answer_started[OF startup_ok D len, of "question (?kb ! 1)" "initial_state Absent"]
      am c
    show ?thesis by auto
  qed
  have B: "find_best_answer (snd (startup (Inr (const_embedder [0, 0])) (initial_state Absent)))
        (question (?kb ! 0)) = Inr (fallback_answer, Fin 0)"
  proof -
    let ?m = "const_embedder [0, 0]"
    have len: "\<forall>s. length (?m s) = 2" by (simp add: const_embedder_def)
    have c: "rdot (unit_row (?m s)) (unit_row (?m t)) = 0" for s t
      by (simp add: const_embedder_def rdot_def unit_row_def row_norm_def)
    from find_best_answer_started[OF startup_ok D len, of "question (?kb ! 0)" "initial_state Absent"]
      c
    show ?thesis by auto
  qed
  from A ans B show ?thesis by blast
qed

text \<open>
  Claim C2, amended. After start-up, for every entry \<open>e\<close> of the knowledge base whose
  embedding is not the zero vector and has a cosine similarity below 1 with the
  embedding of every earlier entry, \<^verbatim>\<open>find_best_answer\<close> on the question of \<open>e\<close> returns
  the answer of \<open>e\<close> with confidence 1.
\<close>

theorem self_match:
  assumes "startup (Inr m) st0 = (Inr (), st)" and "0 < D" and "\<forall>s. length (m s) = D"
    and "i < length knowledge_base_literal" and "e = knowledge_base_literal ! i"
    and "row_norm (m (question e)) \<noteq> 0"
    and "\<forall>j<i. fl_less (dot (normalize_row (m (question e)))
                          (normalize_row (m (question (knowledge_base_literal ! j)))))
                     (Fin 1)"
  shows "find_best_answer st (question e) = Inr (answer e, Fin 1)"
proof -
  let ?kb = knowledge_base_literal
  let ?x = "m (question e)"
  let ?cos = "\<lambda>j. rdot (unit_row ?x) (unit_row (m (question (?kb ! j))))"
  from find_best_answer_started[OF assms(1-3), of "question e"]
  obtain k where k: "k < length ?kb"
    and am: "argmax (map (\<lambda>y. dot (normalize_row ?x) (normalize_row y))
                 (map m (map question ?kb))) = Inr k"
    and r: "find_best_answer st (question e) =
               (if 3 / 10 < ?cos k then Inr (answer (?kb ! k), Fin (?cos k))
                else Inr (fallback_answer, Fin 0))"
    by blast
  let ?rs = "map (\<lambda>y. rdot (unit_row ?x) (unit_row y)) (map m (map question ?kb))"
  have sr: "map (\<lambda>y. dot (normalize_row ?x) (normalize_row y)) (map m (map question ?kb))
      = map Fin ?rs"
    by (simp add: cos_value)
  from am have am': "argmax (map Fin ?rs) = Inr k" by (simp only: sr)
  have nth: "?rs ! j = ?cos j" if "j < length ?kb" for j
    using that by simp
  have "?rs \<noteq> []" using assms(4) by auto
  from argmax_first_max[OF this] am'
  have mx: "\<forall>j<length ?rs. ?rs ! j \<le> ?rs ! k" and lt: "\<forall>j<k. ?rs ! j < ?rs ! k"
    by auto
  have ci: "?cos i = 1" using assms(5,6) by (simp add: cos_self)
  have le1: "?cos k \<le> 1" using assms(3) by (intro cos_le_one) simp
  from mx[rule_format, of i] assms(4) k have "?cos i \<le> ?cos k" by (simp add: nth)
  with ci le1 have ck: "?cos k = 1" by simp
  have "\<not> k < i"
  proof
    assume "k < i"
    with assms(7)
    have "fl_less (dot (normalize_row ?x) (normalize_row (m (question (?kb ! k))))) (Fin 1)"
      by blast
    with ck show False by (simp add: cos_value)
  qed
  moreover have "\<not> i < k"
  proof
    assume "i < k"
    with lt[rule_format, of i] have "?rs ! i < ?rs ! k" by simp
    with assms(4) k have "?cos i < ?cos k" by (simp add: nth)
    with ci ck show False by simp
  qed
  ultimately have "k = i" by simp
  with r ck assms(5) show ?thesis by simp
qed

theorem self_match_witness:
  "row_norm (keyed_embedder (str ''How do I prioritize tasks effectively?'')
      (question (knowledge_base_literal ! 1))) = 1
   \<and> dot (normalize_row (keyed_embedder (str ''How do I prioritize tasks effectively?'')
            (question (knowledge_base_literal ! 1))))
          (normalize_row (keyed_embedder (str ''How do I prioritize tasks effectively?'')
            (question (knowledge_base_literal ! 0)))) = Fin 0
   \<and> find_best_answer
        (snd (startup (Inr (keyed_embedder (str ''How do I prioritize tasks effectively?'')))
           (initial_state Absent)))
        (question (knowledge_base_literal ! 1))
      = Inr (answer (knowledge_base_literal ! 1), Fin 1)"
proof -
  let ?m = "keyed_embedder (str ''How do I prioritize tasks effectively?'')"
  let ?st = "snd (startup (Inr ?m) (initial_state Absent))"
  have su: "startup (Inr ?m) (initial_state Absent) = (Inr (), ?st)" by (rule startup_ok)
  have D: "(0::nat) < 2" by simp
  have len: "\<forall>s. length (?m s) = 2" by (simp add: keyed_embedder_def)
  have i: "1 < length knowledge_base_literal" by (simp add: length_knowledge_base_literal)
  have e1: "?m (question (knowledge_base_literal ! 1)) = [0, 1]"
    by (simp add: knowledge_base_literal_def keyed_embedder_def str_eq_iff)
  have e0: "?m (question (knowledge_base_literal ! 0)) = [1, 0]"
    by (simp add: knowledge_base_literal_def keyed_embedder_def)
  have n: "row_norm (?m (question (knowledge_base_literal ! 1))) = 1"
    unfolding e1 by (simp add: row_norm_def)
  from n have nz: "row_norm (?m (question (knowledge_base_literal ! 1))) \<noteq> 0" by simp
  have c: "dot (normalize_row (?m (question (knowledge_base_literal ! 1))))
          (normalize_row (?m (question (knowledge_base_literal ! 0)))) = Fin 0"
    unfolding e1 e0 by (simp add: cos_value rdot_def unit_row_def)
  have earlier: "\<forall>j<1. fl_less (dot (normalize_row (?m (question (knowledge_base_literal ! 1))))
          (normalize_row (?m (question (knowledge_base_literal ! j))))) (Fin 1)"
    using c by simp
  have "find_best_answer ?st (question (knowledge_base_literal ! 1))
      = Inr (answer (knowledge_base_literal ! 1), Fin 1)"
    by (rule self_match[OF su D len i refl nz earlier])
  with n c show ?thesis by blast
qed

subsection \<open>C3: the first maximum\<close>



subsection \<open>C4: vectors of zero magnitude\<close>

text \<open>
  Claim C4, as stated, fails on an empty knowledge base: against an empty embedding table
  a query of zero magnitude does not resolve to the fallback, the call fails with
  \<^verbatim>\<open>ValueError\<close>.
\<close>

theorem zero_magnitude_counterexample:
  "row_norm (const_embedder [0, 0] (str ''q'')) = 0
   \<and> find_best_answer \<lparr>model = Some (const_embedder [0, 0]), knowledge_base = Some [],
        knowledge_embeddings = Some [], history_file = Absent\<rparr> (str ''q'')
     = Inl ValueError"
  by (simp add: find_best_answer_def cosine_similarity_empty const_embedder_def row_norm_def)

text \<open>
  Claim C4, amended. The cosine similarity computed by \<^verbatim>\<open>cosine_similarity\<close> is never
  not-a-number, and it is the number 0 as soon as one of the two vectors has zero
  magnitude, whether the query or a stored vector: the zero norm is replaced before the
  division; divided by its own norm, the zero vector would give the similarity
  not-a-number with every vector. So a query whose embedding has zero
  magnitude, against any non-empty embedding table of its dimension, makes
  \<^verbatim>\<open>find_best_answer\<close> return the fallback string with confidence 0; it does not fail.
\<close>

theorem zero_magnitude_fallback:
  assumes "model st = Some m" and "knowledge_embeddings st = Some Y"
    and "Y \<noteq> []" and "m q \<noteq> []" and "\<forall>y\<in>set Y. length y = length (m q)"
    and "row_norm (m q) = 0"
  shows "find_best_answer st q = Inr (fallback_answer, Fin 0)
       \<and> (\<forall>y. dot (normalize_row (m q)) (normalize_row y) = Fin 0)
       \<and> (\<forall>x y. row_norm y = 0 \<longrightarrow> dot (normalize_row x) (normalize_row y) = Fin 0)
       \<and> (\<forall>x y. dot (normalize_row x) (normalize_row y) \<noteq> NaN)
       \<and> (\<forall>x y. \<exists>c. dot (normalize_row x) (normalize_row y) = Fin c)
       \<and> (\<forall>y. y \<noteq> [] \<longrightarrow>
              dot (map (\<lambda>a. np_divide a (row_norm (m q))) (m q)) (normalize_row y) = NaN)"
proof -
  let ?sims = "map (\<lambda>y. dot (normalize_row (m q)) (normalize_row y)) Y"
  let ?rs = "map (\<lambda>y. rdot (unit_row (m q)) (unit_row y)) Y"
  have z: "rdot (unit_row (m q)) (unit_row y) = 0" for y
    using assms(6) by (simp add: cos_zero)
  have sr: "?sims = map Fin ?rs" by (simp add: cos_value)
  have "?rs \<noteq> []" using assms(3) by simp
  from argmax_first_max[OF this] obtain i where "argmax (map Fin ?rs) = Inr i" by blast
  then have i: "argmax ?sims = Inr i" by (simp only: sr)
  have "find_best_answer st q = Inr (fallback_answer, Fin 0)"
    using find_best_answer_eval(2)[OF assms(1-5) i] by (simp add: z)
  moreover have "\<forall>y. dot (normalize_row (m q)) (normalize_row y) = Fin 0"
    by (simp add: cos_value z)
  moreover have "\<forall>x y. row_norm y = 0 \<longrightarrow> dot (normalize_row x) (normalize_row y) = Fin 0"
    by (simp add: cos_value cos_zero)
  moreover have "\<forall>x y. dot (normalize_row x) (normalize_row y) \<noteq> NaN"
    by (simp add: cos_value)
  moreover have "\<forall>x y. \<exists>c. dot (normalize_row x) (normalize_row y) = Fin c"
    by (simp add: cos_value)
  moreover have "\<forall>y. y \<noteq> [] \<longrightarrow>
      dot (map (\<lambda>a. np_divide a (row_norm (m q))) (m q)) (normalize_row y) = NaN"
  proof (intro allI impI)
    fix y :: vec
    assume "y \<noteq> []"
    with assms(6) assms(4)
    show "dot (map (\<lambda>a. np_divide a (row_norm (m q))) (m q)) (normalize_row y) = NaN"
      by (rule unguarded_similarity)
  qed
  ultimately show ?thesis by blast
qed

theorem zero_magnitude_fallback_witness:
  "row_norm (const_embedder [0, 0] (str ''q'')) = 0
   \<and> dot (normalize_row (const_embedder [0, 0] (str ''q''))) (normalize_row [1, 0]) = Fin 0
   \<and> find_best_answer \<lparr>model = Some (const_embedder [0, 0]),
         knowledge_base = Some [\<lparr>question = str ''k'', answer = str ''v''\<rparr>,
                                \<lparr>question = str ''l'', answer = str ''w''\<rparr>],
         knowledge_embeddings = Some [[1, 0], [0, 0]], history_file = Absent\<rparr> (str ''q'')
       = Inr (fallback_answer, Fin 0)"
proof -
  let ?m = "const_embedder [0, 0]"
  let ?st = "\<lparr>model = Some ?m,
         knowledge_base = Some [\<lparr>question = str ''k'', answer = str ''v''\<rparr>,
                                \<lparr>question = str ''l'', answer = str ''w''\<rparr>],
         knowledge_embeddings = Some [[1, 0], [0, 0]], history_file = Absent\<rparr>"
  have n: "row_norm (?m (str ''q'')) = 0"
    by (simp add: const_embedder_def row_norm_def)
  have "find_best_answer ?st (str ''q'') = Inr (fallback_answer, Fin 0)
       \<and> (\<forall>y. dot (normalize_row (?m (str ''q''))) (normalize_row y) = Fin 0)
       \<and> (\<forall>x y. row_norm y = 0 \<longrightarrow> dot (normalize_row x) (normalize_row y) = Fin 0)
       \<and> (\<forall>x y. dot (normalize_row x) (normalize_row y) \<noteq> NaN)
       \<and> (\<forall>x y. \<exists>c. dot (normalize_row x) (normalize_row y) = Fin c)
       \<and> (\<forall>y. y \<noteq> [] \<longrightarrow>
              dot (map (\<lambda>a. np_divide a (row_norm (?m (str ''q'')))) (?m (str ''q'')))
                (normalize_row y) = NaN)"
    by (rule zero_magnitude_fallback[where Y = "[[1, 0], [0, 0]]"])
       (simp_all add: n, simp_all add: const_embedder_def)
  with n show ?thesis by blast
qed

subsection \<open>C5: resolution never fails after start-up\<close>

text \<open>
  Claim C5. Once start-up has completed, with an embedder of a fixed positive dimension,
  \<^verbatim>\<open>find_best_answer\<close> returns on every question: either the fallback string with
  confidence 0 or the answer of an entry of the knowledge base with a confidence that is a
  number above 0.3; it raises no error.
\<close>

theorem find_best_answer_total:
  assumes "startup (Inr m) st0 = (Inr (), st)" and "0 < D" and "\<forall>s. length (m s) = D"
  shows "\<exists>a c. find_best_answer st q = Inr (a, Fin c) \<and>
            ((a = fallback_answer \<and> c = 0) \<or>
             (\<exists>i<length knowledge_base_literal. a = answer (knowledge_base_literal ! i) \<and> 3 / 10 < c))"
  using find_best_answer_started[OF assms, of q] by (auto split: if_splits)

theorem find_best_answer_total_witness:
  "fst (startup (Inr (const_embedder [1, 0])) (initial_state Absent)) = Inr ()
   \<and> (\<exists>a c. find_best_answer (snd (startup (Inr (const_embedder [1, 0])) (initial_state Absent)))
          (str ''hi'') = Inr (a, Fin c))"
proof -
  let ?m = "const_embedder [1, 0]"
  let ?st = "snd (startup (Inr ?m) (initial_state Absent))"
  have su: "startup (Inr ?m) (initial_state Absent) = (Inr (), ?st)" by (rule startup_ok)
  have D: "(0::nat) < 2" by simp
  have len: "\<forall>s. length (?m s) = 2" by (simp add: const_embedder_def)
  have f: "fst (startup (Inr ?m) (initial_state Absent)) = Inr ()"
    by (simp add: startup_def load_model_def load_knowledge_base_def Let_def)
  from find_best_answer_total[OF su D len, of "str ''hi''"]
  have "\<exists>a c. find_best_answer ?st (str ''hi'') = Inr (a, Fin c)"
    by blast
  with f show ?thesis by blast
qed

subsection \<open>C6: the empty knowledge base\<close>

text \<open>
  Claim C6, as stated, fails: on an empty embedding table \<^verbatim>\<open>find_best_answer\<close> does not
  return an absent match with score 0; \<^verbatim>\<open>cosine_similarity\<close> rejects the table and the
  call fails with \<^verbatim>\<open>ValueError\<close>.
\<close>

theorem empty_table_counterexample:
  "find_best_answer \<lparr>model = Some (const_embedder [1, 0]), knowledge_base = Some [],
        knowledge_embeddings = Some [], history_file = Absent\<rparr> (str ''hello'')
     = Inl ValueError"
  by (simp add: find_best_answer_def cosine_similarity_empty)

text \<open>
  Claim C6, amended. \<^verbatim>\<open>load_knowledge_base\<close> takes no knowledge base: once the model is
  loaded it succeeds and installs the fixed knowledge base of ten entries with one
  embedding for each, so the table it builds is never empty and no failure for an empty
  knowledge base exists. If the embedding table is empty all the same,
  \<^verbatim>\<open>find_best_answer\<close> fails with \<^verbatim>\<open>ValueError\<close> on every question.
\<close>

theorem no_empty_knowledge_base:
  assumes "model st = Some m"
  shows "fst (load_knowledge_base st) = Inr ()
       \<and> knowledge_base (snd (load_knowledge_base st)) = Some knowledge_base_literal
       \<and> knowledge_embeddings (snd (load_knowledge_base st))
           = Some (encode m (map question knowledge_base_literal))
       \<and> length knowledge_base_literal = 10
       \<and> length (encode m (map question knowledge_base_literal)) = 10
       \<and> find_best_answer (st\<lparr>knowledge_embeddings := Some []\<rparr>) q = Inl ValueError"
  using assms
  by (simp add: load_knowledge_base_def Let_def encode_def length_knowledge_base_literal
      find_best_answer_def cosine_similarity_empty)

theorem no_empty_knowledge_base_witness:
  "model (snd (load_model (Inr (const_embedder [1, 0])) (initial_state Absent)))
     = Some (const_embedder [1, 0])
   \<and> fst (load_knowledge_base (snd (load_model (Inr (const_embedder [1, 0])) (initial_state Absent))))
     = Inr ()
   \<and> find_best_answer
        ((snd (load_model (Inr (const_embedder [1, 0])) (initial_state Absent)))
           \<lparr>knowledge_embeddings := Some []\<rparr>) (str ''hello'')
     = Inl ValueError"
proof -
  let ?st = "snd (load_model (Inr (const_embedder [1, 0])) (initial_state Absent))"
  have m: "model ?st = Some (const_embedder [1, 0])"
    by (simp add: load_model_def)
  from no_empty_knowledge_base[OF m, of "str ''hello''"] m show ?thesis by blast
qed

subsection \<open>C7: determinism\<close>

text \<open>
  Claim C7. For a fixed knowledge base and embedder, resolving the same question gives the
  same answer and confidence on every call: \<^verbatim>\<open>find_best_answer\<close> returns the same result
  whatever requests the server has handled in between and whatever the history file
  holds.
\<close>

theorem resolution_deterministic:
  "find_best_answer (serve st rs) q = find_best_answer st q
   \<and> find_best_answer (st\<lparr>history_file := f\<rparr>) q = find_best_answer st q"
proof -
  have s: "serve st rs = st\<lparr>history_file := history_file (serve st rs)\<rparr>"
    by (rule serve_frame)
  have m: "model (serve st rs) = model st" by (subst s) simp
  have k: "knowledge_base (serve st rs) = knowledge_base st" by (subst s) simp
  have e: "knowledge_embeddings (serve st rs) = knowledge_embeddings st" by (subst s) simp
  have "find_best_answer (st\<lparr>history_file := f\<rparr>) q = find_best_answer st q"
    by (rule find_best_answer_frame) simp_all
  with find_best_answer_frame[OF m k e] show ?thesis by blast
qed

theorem resolution_deterministic_witness:
  "find_best_answer
      (serve (snd (startup (Inr (const_embedder [1, 0])) (initial_state Absent)))
         [Ask (JObj [(str ''question'', JStr (str ''hi''))]) (str ''t1'') (str ''t2''),
          History, Health]) (str ''hi'')
     = find_best_answer (snd (startup (Inr (const_embedder [1, 0])) (initial_state Absent)))
         (str ''hi'')"
  using resolution_deterministic[of "snd (startup (Inr (const_embedder [1, 0])) (initial_state Absent))"
      "[Ask (JObj [(str ''question'', JStr (str ''hi''))]) (str ''t1'') (str ''t2''),
        History, Health]" "str ''hi''"]
  by blast

subsection \<open>C8: the history keeps the last 50 records\<close>

text \<open>
  Claim C8 says that after every save the history holds the last 50 records, the new one
  last. A question with a surrogate code point, as the JSON text \<^verbatim>\<open>"\ud800"\<close> gives,
  breaks it: \<^verbatim>\<open>save_chat_history\<close> empties the file, the write raises
  \<^verbatim>\<open>UnicodeEncodeError\<close> part of the way, and the file is left with text that is no
  JSON document: the new record is not in it and the earlier ones cannot be read any
  more. (When the file is absent or holds a JSON array, and no string of the old records
  or of the new one has a surrogate, the claim holds, as \<open>save_chat_history_cap\<close>
  shows.)
\<close>

theorem save_chat_history_surrogate:
  "save_chat_history [55296] fallback_answer (str ''2024-05-01T10:00:00'')
      (initial_state (Holds (JArr [new_entry (str ''2024-05-01T09:00:00'') (str ''q'') (str ''a'')])))
     = (Inl UnicodeEncodeError,
        (initial_state (Holds (JArr [new_entry (str ''2024-05-01T09:00:00'') (str ''q'') (str ''a'')])))
          \<lparr>history_file := Garbled\<rparr>)"
  by (simp add: save_chat_history_def initial_state_def json_load_def json_dump_def Let_def
      slice_last_drop json_encodable_new_entry encodable_def surrogate_def)

subsection \<open>C9: the retrieval state is read-only\<close>

text \<open>
  Claim C9. No request changes the model, the knowledge base or the embedding table:
  after any sequence of requests to the three endpoints the state equals the state after
  start-up except for the history file.
\<close>

theorem retrieval_state_unchanged:
  "model (serve st rs) = model st
   \<and> knowledge_base (serve st rs) = knowledge_base st
   \<and> knowledge_embeddings (serve st rs) = knowledge_embeddings st
   \<and> serve st rs = st\<lparr>history_file := history_file (serve st rs)\<rparr>"
proof -
  have s: "serve st rs = st\<lparr>history_file := history_file (serve st rs)\<rparr>"
    by (rule serve_frame)
  have m: "model (serve st rs) = model st" by (subst s) simp
  have k: "knowledge_base (serve st rs) = knowledge_base st" by (subst s) simp
  have e: "knowledge_embeddings (serve st rs) = knowledge_embeddings st" by (subst s) simp
  from s m k e show ?thesis by blast
qed

theorem retrieval_state_unchanged_witness:
  "knowledge_base
      (serve (snd (startup (Inr (const_embedder [1, 0])) (initial_state Absent)))
         [Ask (JObj [(str ''question'', JStr (str ''hi''))]) (str ''t1'') (str ''t2''),
          History, Health])
     = Some knowledge_base_literal
   \<and> knowledge_embeddings
      (serve (snd (startup (Inr (const_embedder [1, 0])) (initial_state Absent)))
         [Ask (JObj [(str ''question'', JStr (str ''hi''))]) (str ''t1'') (str ''t2''),
          History, Health])
     = Some (map (const_embedder [1, 0]) (map question knowledge_base_literal))"
proof -
  let ?st = "snd (startup (Inr (const_embedder [1, 0])) (initial_state Absent))"
  let ?rs = "[Ask (JObj [(str ''question'', JStr (str ''hi''))]) (str ''t1'') (str ''t2''),
              History, Health]"
  have "startup (Inr (const_embedder [1, 0])) (initial_state Absent) = (Inr (), ?st)"
    by (rule startup_ok)
  then have "knowledge_base ?st = Some knowledge_base_literal"
    and "knowledge_embeddings ?st
         = Some (map (const_embedder [1, 0]) (map question knowledge_base_literal))"
    by (simp_all add: startup_state)
  with retrieval_state_unchanged[of ?st ?rs] show ?thesis by simp
qed

subsection \<open>C10: requests without a question\<close>

text \<open>
  Claim C10 says that every request whose body lacks a question is answered with status
  400 and an empty answer. The body \<^verbatim>\<open>5\<close> is a JSON document without a question, and
  \<^verbatim>\<open>ask_question\<close> answers it with status 500 and a non-empty answer: the number is
  truthy, the test \<^verbatim>\<open>'question' not in data\<close> raises \<^verbatim>\<open>TypeError\<close> on it, and the
  handler's \<^verbatim>\<open>except\<close> branch builds the response. (For a body that is null, empty, or
  an object without a question or with a blank one, the status is 400, as
  \<open>ask_question_rejects\<close> shows.)
\<close>

theorem ask_question_number_body:
  "ask_question st (JNum (Fin 5)) now1 now2 =
     ((JObj [(str ''error'', JStr (str ''Internal server error'')),
             (str ''answer'', JStr (str ''Sorry, there was an error processing your question. Please try again.'')),
             (str ''confidence'', JNum (Fin 0))], 500), st)"
  by (simp add: ask_question_def ask_question_try_def)

end
